theory Spec2Isabelle
  imports Complex_Main
begin

section \<open>The two main loops of the SPH time-step scheduler\<close>

text \<open>
  The sources are the two drivers
  \<^verbatim>\<open>tests/2d_examples/test_2d_free_stream_around_cylinder/2d_free_stream_around_cylinder.cpp\<close>
  and \<^verbatim>\<open>tests/2d_examples/test_2d_poiseuille_flow/src/poiseuille_flow.cpp\<close>.
  Their \<^verbatim>\<open>main\<close> functions call dynamics objects of the library in a fixed
  program order inside three nested \<^verbatim>\<open>while\<close> loops.  The library objects are
  not part of the sources, so a call is an event: the scheduler state carries
  the list of calls made so far.  The particle state is a function of that
  list (the library is deterministic), hence the value a reduction returns is
  modelled as an arbitrary function of the call history.

  \<^verbatim>\<open>Real\<close> is \<^verbatim>\<open>double\<close> in the source and the type \<^typ>\<open>real\<close> here.  The
  drivers below add and subtract exactly.  The acoustic sub-loops are given a
  second time with every sum and difference rounded, for what depends on the
  rounding.  \<^verbatim>\<open>exec\<close> and \<^verbatim>\<open>parallel_exec\<close> differ in the execution policy only
  and are the same event.
\<close>

subsection \<open>Calls\<close>

datatype dynamics =
    initialize_a_fluid_step
  | get_fluid_advection_time_step_size
  | free_stream_surface_indicator
  | update_fluid_density
  | update_density_by_summation
  | viscous_acceleration
  | transport_velocity_correction
  | get_fluid_time_step_size
  | pressure_relaxation
  | velocity_boundary_condition_constraint
  | density_relaxation
  | emitter_buffer_inflow_condition
  | emitter_inflow_injection
  | disposer_outflow_deletion
  | compute_vorticity
  | cylinder_normal_direction
  | wall_boundary_normal_direction
  | periodic_condition_bounding
  | periodic_condition_update_cell_linked_list

datatype relation =
    water_block_inner
  | water_block_contact
  | cylinder_contact
  | fluid_observer_contact
  | water_block_complex

datatype recorder =
    write_real_body_states
  | write_total_viscous_force_on_inserted_body
  | write_total_force_on_inserted_body
  | write_fluid_velocity
  | body_states_recording
  | restart_io

datatype call =
    Exec dynamics "real option"
  | UpdateConfiguration relation
  | UpdateCellLinkedListWithParticleSort nat
  | UpdateCellLinkedList
  | InitializeSystemCellLinkedLists
  | InitializeSystemConfigurations
  | WriteToFile recorder "nat option"
  | ScreenOutput

subsection \<open>Scheduler state\<close>

text \<open>
  The variables of \<^verbatim>\<open>main\<close> that the loops read and write, the global
  \<^verbatim>\<open>GlobalStaticVariables::physical_time_\<close>, and the call history.  The
  counters are \<^verbatim>\<open>size_t\<close> in the source; they only feed the screen output
  test and are natural numbers here.  The field \<open>last_dt\<close> is the variable
  \<^verbatim>\<open>dt\<close> that the Poiseuille driver declares outside its loops (line 169).
\<close>

record sched =
  physical_time :: real
  integration_time :: real
  relaxation_time :: real
  number_of_iterations :: nat
  inner_ite_dt :: nat
  last_dt :: real
  history :: "call list"

text \<open>The two time-step reductions, as functions of the history before the call.\<close>

record reductions =
  AdvectionTimeStepSize :: "call list \<Rightarrow> real"
  AcousticTimeStepSize :: "call list \<Rightarrow> real"

definition run :: "call \<Rightarrow> sched \<Rightarrow> sched" where
  "run c s = s\<lparr>history := history s @ [c]\<rparr>"

text \<open>
  Modelled from the spec: the library macro \<^verbatim>\<open>SMIN\<close> is not in the sources;
  the spec reads it as clipping one bound by another, so it is the smaller of
  its two arguments.
\<close>

definition SMIN :: "real \<Rightarrow> real \<Rightarrow> real" where
  "SMIN a b = min a b"

text \<open>
  Modelled from the spec: \<^verbatim>\<open>Dynamics1Level::exec(dt)\<close> is library code.  The
  spec's TwoPhaseIntegration runs the phase of the object over all particles
  and then the hooks registered in \<^verbatim>\<open>post_processes_\<close>, in registration order.
\<close>

definition exec_Dynamics1Level :: "dynamics \<Rightarrow> dynamics list \<Rightarrow> real \<Rightarrow> sched \<Rightarrow> sched" where
  "exec_Dynamics1Level d post_processes dt s =
     fold (\<lambda>p. run (Exec p (Some dt))) post_processes (run (Exec d (Some dt)) s)"

subsection \<open>While loops\<close>

text \<open>
  \<^verbatim>\<open>while (b) c\<close> on a state: the body may itself fail to return (an inner loop
  that never exits), and \<open>None\<close> is a loop that never exits.
\<close>

partial_function (option) while_loop ::
  "('s \<Rightarrow> bool) \<Rightarrow> ('s \<Rightarrow> 's option) \<Rightarrow> 's \<Rightarrow> 's option" where
  "while_loop b c s = (if b s then Option.bind (c s) (while_loop b c) else Some s)"

subsection \<open>Free stream around a cylinder\<close>

text \<open>Line 119: \<^verbatim>\<open>pressure_relaxation.post_processes_.push_back(&velocity_boundary_condition_constraint)\<close>.\<close>

definition free_stream_post_processes :: "dynamics list" where
  "free_stream_post_processes = [velocity_boundary_condition_constraint]"

definition free_stream_end_time :: real where
  "free_stream_end_time = 200"

definition free_stream_output_interval :: real where
  "free_stream_output_interval = free_stream_end_time / 400"

definition screen_output_interval :: nat where
  "screen_output_interval = 100"

text \<open>
  Lines 148--156: cell linked lists, configurations, normal direction, first
  output.  (With particle relaxation switched on, \<^verbatim>\<open>main\<close> returns at line 100,
  before these lines; line 19 switches it off.)
\<close>

definition free_stream_prepare :: "sched \<Rightarrow> sched" where
  "free_stream_prepare s =
     run (WriteToFile write_real_body_states None)
       (run (Exec cylinder_normal_direction None)
         (run InitializeSystemConfigurations
           (run InitializeSystemCellLinkedLists s)))"

text \<open>Lines 178--186: the calls before the acoustic sub-loop; returns \<open>Dt\<close>.\<close>

definition free_stream_pre_physics :: "reductions \<Rightarrow> sched \<Rightarrow> real \<times> sched" where
  "free_stream_pre_physics env s =
     (let s1 = run (Exec initialize_a_fluid_step None) s;
          Dt = AdvectionTimeStepSize env (history s1);
          s2 = run (Exec get_fluid_advection_time_step_size None) s1;
          s3 = run (Exec free_stream_surface_indicator None) s2;
          s4 = run (Exec update_fluid_density None) s3;
          s5 = run (Exec viscous_acceleration None) s4;
          s6 = run (Exec transport_velocity_correction None) s5
      in (Dt, s6\<lparr>inner_ite_dt := 0, relaxation_time := 0\<rparr>))"

text \<open>Lines 189--199: the body of the acoustic sub-loop.\<close>

definition free_stream_acoustic_step :: "reductions \<Rightarrow> real \<Rightarrow> sched \<Rightarrow> sched" where
  "free_stream_acoustic_step env Dt s =
     (let dt = SMIN (AcousticTimeStepSize env (history s)) (Dt - relaxation_time s);
          s1 = run (Exec get_fluid_time_step_size None) s;
          s2 = exec_Dynamics1Level pressure_relaxation free_stream_post_processes dt s1;
          s3 = exec_Dynamics1Level density_relaxation [] dt s2;
          s4 = s3\<lparr>relaxation_time := relaxation_time s3 + dt,
                  integration_time := integration_time s3 + dt,
                  physical_time := physical_time s3 + dt\<rparr>;
          s5 = run (Exec emitter_buffer_inflow_condition None) s4
      in s5\<lparr>inner_ite_dt := inner_ite_dt s5 + 1\<rparr>)"

text \<open>Line 187: \<^verbatim>\<open>while (relaxation_time < Dt)\<close>.\<close>

definition free_stream_relaxation_loop :: "reductions \<Rightarrow> real \<Rightarrow> sched \<Rightarrow> sched option" where
  "free_stream_relaxation_loop env Dt =
     while_loop (\<lambda>s. relaxation_time s < Dt) (\<lambda>s. Some (free_stream_acoustic_step env Dt s))"

text \<open>Lines 202--208: screen output every hundredth macro step, then the counter.\<close>

definition free_stream_screen :: "sched \<Rightarrow> sched" where
  "free_stream_screen s =
     (let s1 = (if number_of_iterations s mod screen_output_interval = 0
                then run ScreenOutput s else s)
      in s1\<lparr>number_of_iterations := number_of_iterations s1 + 1\<rparr>)"

text \<open>Lines 211--218: injection, deletion, cell linked list, configurations.\<close>

definition free_stream_refresh :: "sched \<Rightarrow> sched" where
  "free_stream_refresh s =
     (let s1 = run (Exec emitter_inflow_injection None) s;
          s2 = run (Exec disposer_outflow_deletion None) s1;
          s3 = run (UpdateCellLinkedListWithParticleSort 100) s2;
          s4 = run (UpdateConfiguration water_block_complex) s3
      in run (UpdateConfiguration cylinder_contact) s4)"

text \<open>Lines 178--218: one macro advection step.\<close>

definition free_stream_advection_step :: "reductions \<Rightarrow> sched \<Rightarrow> sched option" where
  "free_stream_advection_step env s =
     (case free_stream_pre_physics env s of (Dt, s1) \<Rightarrow>
        (case free_stream_relaxation_loop env Dt s1 of
           None \<Rightarrow> None
         | Some s2 \<Rightarrow> Some (free_stream_refresh (free_stream_screen s2))))"

text \<open>Line 176: \<^verbatim>\<open>while (integration_time < output_interval)\<close>.\<close>

definition free_stream_integration_loop :: "reductions \<Rightarrow> sched \<Rightarrow> sched option" where
  "free_stream_integration_loop env =
     while_loop (\<lambda>s. integration_time s < free_stream_output_interval)
       (free_stream_advection_step env)"

text \<open>Lines 223--228: the output after each output interval.\<close>

definition free_stream_output :: "sched \<Rightarrow> sched" where
  "free_stream_output s =
     (let n = number_of_iterations s;
          s1 = run (Exec compute_vorticity None) s;
          s2 = run (WriteToFile write_real_body_states None) s1;
          s3 = run (WriteToFile write_total_viscous_force_on_inserted_body (Some n)) s2;
          s4 = run (WriteToFile write_total_force_on_inserted_body (Some n)) s3;
          s5 = run (UpdateConfiguration fluid_observer_contact) s4
      in run (WriteToFile write_fluid_velocity (Some n)) s5)"

text \<open>Lines 174--230: the body of the main loop.\<close>

definition free_stream_output_pass :: "reductions \<Rightarrow> sched \<Rightarrow> sched option" where
  "free_stream_output_pass env s =
     (case free_stream_integration_loop env (s\<lparr>integration_time := 0\<rparr>) of
        None \<Rightarrow> None
      | Some s1 \<Rightarrow> Some (free_stream_output s1))"

text \<open>Line 172: \<^verbatim>\<open>while (GlobalStaticVariables::physical_time_ < end_time)\<close>.\<close>

definition free_stream_main_loop :: "reductions \<Rightarrow> sched \<Rightarrow> sched option" where
  "free_stream_main_loop env =
     while_loop (\<lambda>s. physical_time s < free_stream_end_time) (free_stream_output_pass env)"

subsection \<open>Poiseuille flow\<close>

definition poiseuille_end_time :: real where
  "poiseuille_end_time = 20"

definition Output_Time :: real where
  "Output_Time = 1 / 10"

definition restart_output_interval :: nat where
  "restart_output_interval = screen_output_interval * 10"

text \<open>
  Lines 144--160.  Line 89 sets \<^verbatim>\<open>restart_step_ = 0\<close>, so the branch of
  line 152 is not taken.
\<close>

definition poiseuille_prepare :: "sched \<Rightarrow> sched" where
  "poiseuille_prepare s =
     run (WriteToFile body_states_recording (Some 0))
       (run (Exec wall_boundary_normal_direction None)
         (run InitializeSystemConfigurations
           (run (Exec periodic_condition_update_cell_linked_list None)
             (run InitializeSystemCellLinkedLists s))))"

text \<open>Lines 188--196; line 191 is commented out in the source.\<close>

definition poiseuille_pre_physics :: "reductions \<Rightarrow> sched \<Rightarrow> real \<times> sched" where
  "poiseuille_pre_physics env s =
     (let s1 = run (Exec initialize_a_fluid_step None) s;
          Dt = AdvectionTimeStepSize env (history s1);
          s2 = run (Exec get_fluid_advection_time_step_size None) s1;
          s3 = run (Exec update_density_by_summation None) s2;
          s4 = run (Exec transport_velocity_correction (Some Dt)) s3
      in (Dt, s4\<lparr>relaxation_time := 0\<rparr>))"

text \<open>Lines 199--205.\<close>

definition poiseuille_acoustic_step :: "reductions \<Rightarrow> real \<Rightarrow> sched \<Rightarrow> sched" where
  "poiseuille_acoustic_step env Dt s =
     (let dt = SMIN (AcousticTimeStepSize env (history s)) Dt;
          s1 = (run (Exec get_fluid_time_step_size None) s)\<lparr>last_dt := dt\<rparr>;
          s2 = run (Exec pressure_relaxation (Some dt)) s1;
          s3 = run (Exec viscous_acceleration (Some dt)) s2;
          s4 = run (Exec density_relaxation (Some dt)) s3
      in s4\<lparr>relaxation_time := relaxation_time s4 + dt,
             integration_time := integration_time s4 + dt,
             physical_time := physical_time s4 + dt\<rparr>)"

text \<open>Line 197.\<close>

definition poiseuille_relaxation_loop :: "reductions \<Rightarrow> real \<Rightarrow> sched \<Rightarrow> sched option" where
  "poiseuille_relaxation_loop env Dt =
     while_loop (\<lambda>s. relaxation_time s < Dt) (\<lambda>s. Some (poiseuille_acoustic_step env Dt s))"

text \<open>Lines 208--217.\<close>

definition poiseuille_screen :: "sched \<Rightarrow> sched" where
  "poiseuille_screen s =
     (let n = number_of_iterations s;
          s1 = (if n mod screen_output_interval = 0
                then (let s0 = run ScreenOutput s
                      in if n mod restart_output_interval = 0
                         then run (WriteToFile restart_io (Some n)) s0 else s0)
                else s)
      in s1\<lparr>number_of_iterations := number_of_iterations s1 + 1\<rparr>)"

text \<open>Lines 221--224.\<close>

definition poiseuille_refresh :: "sched \<Rightarrow> sched" where
  "poiseuille_refresh s =
     (let s1 = run (Exec periodic_condition_bounding None) s;
          s2 = run UpdateCellLinkedList s1;
          s3 = run (Exec periodic_condition_update_cell_linked_list None) s2
      in run (UpdateConfiguration water_block_complex) s3)"

text \<open>Lines 188--224: one macro advection step.\<close>

definition poiseuille_advection_step :: "reductions \<Rightarrow> sched \<Rightarrow> sched option" where
  "poiseuille_advection_step env s =
     (case poiseuille_pre_physics env s of (Dt, s1) \<Rightarrow>
        (case poiseuille_relaxation_loop env Dt s1 of
           None \<Rightarrow> None
         | Some s2 \<Rightarrow> Some (poiseuille_refresh (poiseuille_screen s2))))"

text \<open>Line 184.\<close>

definition poiseuille_integration_loop :: "reductions \<Rightarrow> sched \<Rightarrow> sched option" where
  "poiseuille_integration_loop env =
     while_loop (\<lambda>s. integration_time s < Output_Time) (poiseuille_advection_step env)"

text \<open>Lines 182--230: the body of the main loop; line 228 writes the body states.\<close>

definition poiseuille_output_pass :: "reductions \<Rightarrow> sched \<Rightarrow> sched option" where
  "poiseuille_output_pass env s =
     (case poiseuille_integration_loop env (s\<lparr>integration_time := 0\<rparr>) of
        None \<Rightarrow> None
      | Some s1 \<Rightarrow> Some (run (WriteToFile body_states_recording None) s1))"

text \<open>Line 180.\<close>

definition poiseuille_main_loop :: "reductions \<Rightarrow> sched \<Rightarrow> sched option" where
  "poiseuille_main_loop env =
     while_loop (\<lambda>s. physical_time s < poiseuille_end_time) (poiseuille_output_pass env)"

text \<open>The state at the entry of \<^verbatim>\<open>main\<close>: time zero, nothing called yet.\<close>

definition initial :: sched where
  "initial = \<lparr>physical_time = 0, integration_time = 0, relaxation_time = 0,
              number_of_iterations = 0, inner_ite_dt = 0, last_dt = 0, history = []\<rparr>"

text \<open>The two programs from their preparation to the end of the main loop.\<close>

definition free_stream_main :: "reductions \<Rightarrow> sched option" where
  "free_stream_main env = free_stream_main_loop env (free_stream_prepare initial)"

definition poiseuille_main :: "reductions \<Rightarrow> sched option" where
  "poiseuille_main env = poiseuille_main_loop env (poiseuille_prepare initial)"

subsection \<open>The acoustic sub-loops with rounded sums\<close>

text \<open>
  The same two loop bodies with the rounding \<open>rnd\<close> of the machine applied
  where the source computes in \<^verbatim>\<open>Real\<close>: to the difference
  \<^verbatim>\<open>Dt - relaxation_time\<close> (free stream, line 189) and to the three sums
  \<^verbatim>\<open>+= dt\<close> (free stream, lines 195--197; Poiseuille, lines 203--205).
  Comparisons and \<^verbatim>\<open>SMIN\<close> do not round.  With the rounding that changes
  nothing these are the bodies above.
\<close>

definition rounded_free_stream_acoustic_step ::
  "(real \<Rightarrow> real) \<Rightarrow> reductions \<Rightarrow> real \<Rightarrow> sched \<Rightarrow> sched" where
  "rounded_free_stream_acoustic_step rnd env Dt s =
     (let dt = SMIN (AcousticTimeStepSize env (history s)) (rnd (Dt - relaxation_time s));
          s1 = run (Exec get_fluid_time_step_size None) s;
          s2 = exec_Dynamics1Level pressure_relaxation free_stream_post_processes dt s1;
          s3 = exec_Dynamics1Level density_relaxation [] dt s2;
          s4 = s3\<lparr>relaxation_time := rnd (relaxation_time s3 + dt),
                  integration_time := rnd (integration_time s3 + dt),
                  physical_time := rnd (physical_time s3 + dt)\<rparr>;
          s5 = run (Exec emitter_buffer_inflow_condition None) s4
      in s5\<lparr>inner_ite_dt := inner_ite_dt s5 + 1\<rparr>)"


definition rounded_poiseuille_acoustic_step ::
  "(real \<Rightarrow> real) \<Rightarrow> reductions \<Rightarrow> real \<Rightarrow> sched \<Rightarrow> sched" where
  "rounded_poiseuille_acoustic_step rnd env Dt s =
     (let dt = SMIN (AcousticTimeStepSize env (history s)) Dt;
          s1 = (run (Exec get_fluid_time_step_size None) s)\<lparr>last_dt := dt\<rparr>;
          s2 = run (Exec pressure_relaxation (Some dt)) s1;
          s3 = run (Exec viscous_acceleration (Some dt)) s2;
          s4 = run (Exec density_relaxation (Some dt)) s3
      in s4\<lparr>relaxation_time := rnd (relaxation_time s4 + dt),
             integration_time := rnd (integration_time s4 + dt),
             physical_time := rnd (physical_time s4 + dt)\<rparr>)"





section \<open>Notions used in the properties\<close>

text \<open>The sub-step sizes of line 189 and of line 199.\<close>

definition free_stream_dt :: "reductions \<Rightarrow> real \<Rightarrow> sched \<Rightarrow> real" where
  "free_stream_dt env Dt s = SMIN (AcousticTimeStepSize env (history s)) (Dt - relaxation_time s)"

definition poiseuille_dt :: "reductions \<Rightarrow> real \<Rightarrow> sched \<Rightarrow> real" where
  "poiseuille_dt env Dt s = SMIN (AcousticTimeStepSize env (history s)) Dt"

text \<open>Reductions that return the same two bounds whatever the history.\<close>

definition steady :: "real \<Rightarrow> real \<Rightarrow> reductions" where
  "steady A a = \<lparr>AdvectionTimeStepSize = (\<lambda>h. A), AcousticTimeStepSize = (\<lambda>h. a)\<rparr>"






text \<open>
  With both bounds equal to the end time, each driver makes one macro step of
  one sub-step and one output.  These are the states it ends in.
\<close>

definition free_stream_single_step :: sched where
  "free_stream_single_step =
     \<lparr>physical_time = 200, integration_time = 200, relaxation_time = 200,
      number_of_iterations = 1, inner_ite_dt = 1, last_dt = 0,
      history =
        [InitializeSystemCellLinkedLists, InitializeSystemConfigurations,
         Exec cylinder_normal_direction None, WriteToFile write_real_body_states None,
         Exec initialize_a_fluid_step None,
         Exec get_fluid_advection_time_step_size None,
         Exec free_stream_surface_indicator None,
         Exec update_fluid_density None,
         Exec viscous_acceleration None,
         Exec transport_velocity_correction None,
         Exec get_fluid_time_step_size None,
         Exec pressure_relaxation (Some 200),
         Exec velocity_boundary_condition_constraint (Some 200),
         Exec density_relaxation (Some 200),
         Exec emitter_buffer_inflow_condition None,
         ScreenOutput,
         Exec emitter_inflow_injection None,
         Exec disposer_outflow_deletion None,
         UpdateCellLinkedListWithParticleSort 100,
         UpdateConfiguration water_block_complex,
         UpdateConfiguration cylinder_contact,
         Exec compute_vorticity None,
         WriteToFile write_real_body_states None,
         WriteToFile write_total_viscous_force_on_inserted_body (Some 1),
         WriteToFile write_total_force_on_inserted_body (Some 1),
         UpdateConfiguration fluid_observer_contact,
         WriteToFile write_fluid_velocity (Some 1)]\<rparr>"


text \<open>
  One macro step from the initial state with advection bound 1 and acoustic
  bound 1/2: two sub-steps.
\<close>

definition free_stream_two_substeps :: sched where
  "free_stream_two_substeps =
     \<lparr>physical_time = 1, integration_time = 1, relaxation_time = 1,
      number_of_iterations = 1, inner_ite_dt = 2, last_dt = 0,
      history =
        [Exec initialize_a_fluid_step None,
         Exec get_fluid_advection_time_step_size None,
         Exec free_stream_surface_indicator None,
         Exec update_fluid_density None,
         Exec viscous_acceleration None,
         Exec transport_velocity_correction None,
         Exec get_fluid_time_step_size None,
         Exec pressure_relaxation (Some (1 / 2)),
         Exec velocity_boundary_condition_constraint (Some (1 / 2)),
         Exec density_relaxation (Some (1 / 2)),
         Exec emitter_buffer_inflow_condition None,
         Exec get_fluid_time_step_size None,
         Exec pressure_relaxation (Some (1 / 2)),
         Exec velocity_boundary_condition_constraint (Some (1 / 2)),
         Exec density_relaxation (Some (1 / 2)),
         Exec emitter_buffer_inflow_condition None,
         ScreenOutput,
         Exec emitter_inflow_injection None,
         Exec disposer_outflow_deletion None,
         UpdateCellLinkedListWithParticleSort 100,
         UpdateConfiguration water_block_complex,
         UpdateConfiguration cylinder_contact]\<rparr>"

definition poiseuille_two_substeps :: sched where
  "poiseuille_two_substeps =
     \<lparr>physical_time = 1, integration_time = 1, relaxation_time = 1,
      number_of_iterations = 1, inner_ite_dt = 0, last_dt = 1 / 2,
      history =
        [Exec initialize_a_fluid_step None,
         Exec get_fluid_advection_time_step_size None,
         Exec update_density_by_summation None,
         Exec transport_velocity_correction (Some 1),
         Exec get_fluid_time_step_size None,
         Exec pressure_relaxation (Some (1 / 2)),
         Exec viscous_acceleration (Some (1 / 2)),
         Exec density_relaxation (Some (1 / 2)),
         Exec get_fluid_time_step_size None,
         Exec pressure_relaxation (Some (1 / 2)),
         Exec viscous_acceleration (Some (1 / 2)),
         Exec density_relaxation (Some (1 / 2)),
         ScreenOutput,
         WriteToFile restart_io (Some 0),
         Exec periodic_condition_bounding None,
         UpdateCellLinkedList,
         Exec periodic_condition_update_cell_linked_list None,
         UpdateConfiguration water_block_complex]\<rparr>"

subsection \<open>Freshness of the neighbour relations (free stream)\<close>

text \<open>
  The relations a call reads, from the constructor arguments in \<^verbatim>\<open>main\<close>
  (lines 113--142): the fluid interactions are built on
  \<^verbatim>\<open>(water_block_inner, water_block_contact)\<close>, the vorticity on
  \<^verbatim>\<open>water_block_inner\<close>, the two force recordings on dynamics of
  \<^verbatim>\<open>cylinder_contact\<close>, the velocity recording on \<^verbatim>\<open>fluid_observer_contact\<close>.
\<close>

fun dynamics_relations :: "dynamics \<Rightarrow> relation list" where
  "dynamics_relations free_stream_surface_indicator = [water_block_inner, water_block_contact]"
| "dynamics_relations update_fluid_density = [water_block_inner, water_block_contact]"
| "dynamics_relations pressure_relaxation = [water_block_inner, water_block_contact]"
| "dynamics_relations density_relaxation = [water_block_inner, water_block_contact]"
| "dynamics_relations viscous_acceleration = [water_block_inner, water_block_contact]"
| "dynamics_relations transport_velocity_correction = [water_block_inner, water_block_contact]"
| "dynamics_relations compute_vorticity = [water_block_inner]"
| "dynamics_relations d = []"

fun recorder_relations :: "recorder \<Rightarrow> relation list" where
  "recorder_relations write_total_viscous_force_on_inserted_body = [cylinder_contact]"
| "recorder_relations write_total_force_on_inserted_body = [cylinder_contact]"
| "recorder_relations write_fluid_velocity = [fluid_observer_contact]"
| "recorder_relations w = []"

fun consumed :: "call \<Rightarrow> relation list" where
  "consumed (Exec d a) = dynamics_relations d"
| "consumed (WriteToFile w n) = recorder_relations w"
| "consumed c = []"

text \<open>
  The relations a call derives again.  Line 58 builds \<^verbatim>\<open>water_block_complex\<close>
  from \<^verbatim>\<open>water_block_inner\<close> and \<^verbatim>\<open>water_block_contact\<close>; line 150 initialises the
  configurations of all bodies.
\<close>

fun derived :: "call \<Rightarrow> relation list" where
  "derived (UpdateConfiguration water_block_complex) =
     [water_block_inner, water_block_contact, water_block_complex]"
| "derived (UpdateConfiguration r) = [r]"
| "derived InitializeSystemConfigurations =
     [water_block_inner, water_block_contact, cylinder_contact, fluid_observer_contact,
      water_block_complex]"
| "derived c = []"

text \<open>
  Modelled from the spec: what the library calls do to the particles of
  \<^verbatim>\<open>water_block\<close> is not in the sources.  By the spec (4.4, step 4) injection and
  deletion change the particle set and the cell linked list is rebuilt after
  them; by 4.3 the second integration phase updates the positions.  Every
  relation of lines 50--58 has \<^verbatim>\<open>water_block\<close> as its own or as its partner body.
\<close>

fun refreshed :: "call \<Rightarrow> bool" where
  "refreshed (Exec emitter_inflow_injection a) = True"
| "refreshed (Exec disposer_outflow_deletion a) = True"
| "refreshed (UpdateCellLinkedListWithParticleSort n) = True"
| "refreshed c = False"

fun moved :: "call \<Rightarrow> bool" where
  "moved (Exec density_relaxation a) = True"
| "moved c = False"

text \<open>
  The state of one relation along a history.  \<open>Pending\<close>: the particle set
  or the cell linked list of \<^verbatim>\<open>water_block\<close> changed in a configuration refresh
  and the relation was not derived since.  \<open>Moved\<close>: derived, and only
  positions changed since.  \<open>Violated\<close>: it was read while pending; this state
  is never left.
\<close>

datatype status = Fresh | Moved | Pending | Violated

definition track :: "relation \<Rightarrow> status \<Rightarrow> call \<Rightarrow> status" where
  "track r q c =
     (if q = Violated then Violated
      else if q = Pending \<and> r \<in> set (consumed c) then Violated
      else if refreshed c then Pending
      else if r \<in> set (derived c) then Fresh
      else if moved c \<and> q = Fresh then Moved
      else q)"

definition configuration :: "relation \<Rightarrow> call list \<Rightarrow> status" where
  "configuration r h = foldl (track r) Pending h"

text \<open>The states at the boundaries of a macro step, and inside the sub-loop.\<close>

definition settled :: "relation \<Rightarrow> status \<Rightarrow> bool" where
  "settled r q \<longleftrightarrow> q = Fresh \<or> (r = fluid_observer_contact \<and> q = Pending)"

definition usable :: "relation \<Rightarrow> status \<Rightarrow> bool" where
  "usable r q \<longleftrightarrow> q = Fresh \<or> q = Moved \<or> (r = fluid_observer_contact \<and> q = Pending)"

subsection \<open>The calls around a rebuild of the cell linked list (Poiseuille)\<close>




subsection \<open>The positions a rebuild of the cell linked list finds (Poiseuille)\<close>













subsection \<open>Counting calls\<close>

fun is_exec :: "dynamics \<Rightarrow> call \<Rightarrow> bool" where
  "is_exec d (Exec d' a) = (d' = d)"
| "is_exec d c = False"

definition calls_of :: "dynamics \<Rightarrow> call list \<Rightarrow> nat" where
  "calls_of d h = length (filter (is_exec d) h)"

text \<open>The sub-step sizes in a history are the arguments of the density relaxation.\<close>

fun substep :: "call \<Rightarrow> real" where
  "substep (Exec d (Some dt)) = (if d = density_relaxation then dt else 0)"
| "substep c = 0"

definition elapsed :: "call list \<Rightarrow> real" where
  "elapsed h = sum_list (map substep h)"

section \<open>Basic facts\<close>

subsection \<open>Rules for while loops\<close>

lemma while_loop_continue: "b s \<Longrightarrow> while_loop b c s = Option.bind (c s) (while_loop b c)"
  by (subst while_loop.simps) simp

lemma while_loop_exit: "\<not> b s \<Longrightarrow> while_loop b c s = Some s"
  by (subst while_loop.simps) simp

lemma while_loop_invariant_aux:
  assumes "while_loop b c s = Some t"
  shows "(\<forall>s s1. I s \<longrightarrow> b s \<longrightarrow> c s = Some s1 \<longrightarrow> I s1) \<longrightarrow> I s \<longrightarrow> I t \<and> \<not> b t"
proof (rule while_loop.raw_induct
    [where P = "\<lambda>b c s t. (\<forall>s s1. I s \<longrightarrow> b s \<longrightarrow> c s = Some s1 \<longrightarrow> I s1) \<longrightarrow> I s \<longrightarrow> I t \<and> \<not> b t",
      OF _ assms])
  fix loop :: "('a \<Rightarrow> bool) \<Rightarrow> ('a \<Rightarrow> 'a option) \<Rightarrow> 'a \<Rightarrow> 'a option" and b c s t
  assume IH: "\<And>b c s t. loop b c s = Some t \<Longrightarrow>
      (\<forall>s s1. I s \<longrightarrow> b s \<longrightarrow> c s = Some s1 \<longrightarrow> I s1) \<longrightarrow> I s \<longrightarrow> I t \<and> \<not> b t"
    and unfold: "(if b s then Option.bind (c s) (loop b c) else Some s) = Some t"
  show "(\<forall>s s1. I s \<longrightarrow> b s \<longrightarrow> c s = Some s1 \<longrightarrow> I s1) \<longrightarrow> I s \<longrightarrow> I t \<and> \<not> b t"
  proof (intro impI)
    assume pres: "\<forall>s s1. I s \<longrightarrow> b s \<longrightarrow> c s = Some s1 \<longrightarrow> I s1" and inv: "I s"
    show "I t \<and> \<not> b t"
    proof (cases "b s")
      case False
      with unfold inv show ?thesis by simp
    next
      case True
      with unfold obtain s1 where c: "c s = Some s1" and l: "loop b c s1 = Some t"
        by (auto simp: bind_eq_Some_conv)
      from pres inv True c have "I s1" by blast
      with IH[OF l] pres show ?thesis by blast
    qed
  qed
qed

lemma while_loop_invariant:
  assumes "while_loop b c s = Some t" and "I s"
    and "\<And>s s1. I s \<Longrightarrow> b s \<Longrightarrow> c s = Some s1 \<Longrightarrow> I s1"
  shows "I t \<and> \<not> b t"
  using while_loop_invariant_aux[OF assms(1), of I] assms(2,3) by blast

lemma while_loop_diverges:
  assumes "I s"
    and "\<And>s. I s \<Longrightarrow> b s"
    and "\<And>s s1. I s \<Longrightarrow> c s = Some s1 \<Longrightarrow> I s1"
  shows "while_loop b c s = None"
proof (rule ccontr)
  assume "while_loop b c s \<noteq> None"
  then obtain t where t: "while_loop b c s = Some t" by auto
  from while_loop_invariant[OF t, of I] assms have "I t \<and> \<not> b t" by blast
  with assms(2) show False by blast
qed

subsection \<open>The straight-line pieces\<close>

lemma history_run [simp]: "history (run c s) = history s @ [c]"
  and relaxation_time_run [simp]: "relaxation_time (run c s) = relaxation_time s"
  and integration_time_run [simp]: "integration_time (run c s) = integration_time s"
  and physical_time_run [simp]: "physical_time (run c s) = physical_time s"
  and number_of_iterations_run [simp]: "number_of_iterations (run c s) = number_of_iterations s"
  and inner_ite_dt_run [simp]: "inner_ite_dt (run c s) = inner_ite_dt s"
  and last_dt_run [simp]: "last_dt (run c s) = last_dt s"
  by (simp_all add: run_def)

lemma free_stream_acoustic_step_history:
  "history (free_stream_acoustic_step env Dt s) =
     history s @
       [Exec get_fluid_time_step_size None,
        Exec pressure_relaxation (Some (free_stream_dt env Dt s)),
        Exec velocity_boundary_condition_constraint (Some (free_stream_dt env Dt s)),
        Exec density_relaxation (Some (free_stream_dt env Dt s)),
        Exec emitter_buffer_inflow_condition None]"
  by (simp add: free_stream_acoustic_step_def exec_Dynamics1Level_def
      free_stream_post_processes_def free_stream_dt_def Let_def)

lemma free_stream_acoustic_step_fields:
  "relaxation_time (free_stream_acoustic_step env Dt s) = relaxation_time s + free_stream_dt env Dt s"
  "integration_time (free_stream_acoustic_step env Dt s) = integration_time s + free_stream_dt env Dt s"
  "physical_time (free_stream_acoustic_step env Dt s) = physical_time s + free_stream_dt env Dt s"
  "inner_ite_dt (free_stream_acoustic_step env Dt s) = inner_ite_dt s + 1"
  "number_of_iterations (free_stream_acoustic_step env Dt s) = number_of_iterations s"
  "last_dt (free_stream_acoustic_step env Dt s) = last_dt s"
  by (simp_all add: free_stream_acoustic_step_def exec_Dynamics1Level_def
      free_stream_post_processes_def free_stream_dt_def Let_def)

lemma poiseuille_acoustic_step_history:
  "history (poiseuille_acoustic_step env Dt s) =
     history s @
       [Exec get_fluid_time_step_size None,
        Exec pressure_relaxation (Some (poiseuille_dt env Dt s)),
        Exec viscous_acceleration (Some (poiseuille_dt env Dt s)),
        Exec density_relaxation (Some (poiseuille_dt env Dt s))]"
  by (simp add: poiseuille_acoustic_step_def poiseuille_dt_def Let_def)

lemma poiseuille_acoustic_step_fields:
  "relaxation_time (poiseuille_acoustic_step env Dt s) = relaxation_time s + poiseuille_dt env Dt s"
  "integration_time (poiseuille_acoustic_step env Dt s) = integration_time s + poiseuille_dt env Dt s"
  "physical_time (poiseuille_acoustic_step env Dt s) = physical_time s + poiseuille_dt env Dt s"
  "inner_ite_dt (poiseuille_acoustic_step env Dt s) = inner_ite_dt s"
  "number_of_iterations (poiseuille_acoustic_step env Dt s) = number_of_iterations s"
  "last_dt (poiseuille_acoustic_step env Dt s) = poiseuille_dt env Dt s"
  by (simp_all add: poiseuille_acoustic_step_def poiseuille_dt_def Let_def)

lemma free_stream_relaxation_loop_continue:
  "relaxation_time s < Dt \<Longrightarrow>
   free_stream_relaxation_loop env Dt s =
     free_stream_relaxation_loop env Dt (free_stream_acoustic_step env Dt s)"
  by (simp add: free_stream_relaxation_loop_def while_loop_continue)

lemma free_stream_relaxation_loop_exit:
  "\<not> relaxation_time s < Dt \<Longrightarrow> free_stream_relaxation_loop env Dt s = Some s"
  by (simp add: free_stream_relaxation_loop_def while_loop_exit)

lemma poiseuille_relaxation_loop_continue:
  "relaxation_time s < Dt \<Longrightarrow>
   poiseuille_relaxation_loop env Dt s =
     poiseuille_relaxation_loop env Dt (poiseuille_acoustic_step env Dt s)"
  by (simp add: poiseuille_relaxation_loop_def while_loop_continue)

lemma poiseuille_relaxation_loop_exit:
  "\<not> relaxation_time s < Dt \<Longrightarrow> poiseuille_relaxation_loop env Dt s = Some s"
  by (simp add: poiseuille_relaxation_loop_def while_loop_exit)

subsection \<open>The calls of each piece of the drivers\<close>

lemma free_stream_pre_physics_history:
  "history (snd (free_stream_pre_physics env s)) =
     history s @
       [Exec initialize_a_fluid_step None,
        Exec get_fluid_advection_time_step_size None,
        Exec free_stream_surface_indicator None,
        Exec update_fluid_density None,
        Exec viscous_acceleration None,
        Exec transport_velocity_correction None]"
  by (simp add: free_stream_pre_physics_def Let_def)

lemma free_stream_pre_physics_fields:
  "fst (free_stream_pre_physics env s) =
     AdvectionTimeStepSize env (history s @ [Exec initialize_a_fluid_step None])"
  "relaxation_time (snd (free_stream_pre_physics env s)) = 0"
  "integration_time (snd (free_stream_pre_physics env s)) = integration_time s"
  "physical_time (snd (free_stream_pre_physics env s)) = physical_time s"
  "number_of_iterations (snd (free_stream_pre_physics env s)) = number_of_iterations s"
  "inner_ite_dt (snd (free_stream_pre_physics env s)) = 0"
  by (simp_all add: free_stream_pre_physics_def Let_def)

lemma free_stream_screen_history:
  "history (free_stream_screen s) =
     history s @ (if number_of_iterations s mod screen_output_interval = 0 then [ScreenOutput] else [])"
  by (simp add: free_stream_screen_def Let_def)

lemma free_stream_screen_fields:
  "relaxation_time (free_stream_screen s) = relaxation_time s"
  "integration_time (free_stream_screen s) = integration_time s"
  "physical_time (free_stream_screen s) = physical_time s"
  "number_of_iterations (free_stream_screen s) = number_of_iterations s + 1"
  by (simp_all add: free_stream_screen_def Let_def)

lemma free_stream_refresh_history:
  "history (free_stream_refresh s) =
     history s @
       [Exec emitter_inflow_injection None,
        Exec disposer_outflow_deletion None,
        UpdateCellLinkedListWithParticleSort 100,
        UpdateConfiguration water_block_complex,
        UpdateConfiguration cylinder_contact]"
  by (simp add: free_stream_refresh_def Let_def)

lemma free_stream_refresh_fields:
  "relaxation_time (free_stream_refresh s) = relaxation_time s"
  "integration_time (free_stream_refresh s) = integration_time s"
  "physical_time (free_stream_refresh s) = physical_time s"
  "number_of_iterations (free_stream_refresh s) = number_of_iterations s"
  by (simp_all add: free_stream_refresh_def Let_def)

lemma free_stream_output_history:
  "history (free_stream_output s) =
     history s @
       [Exec compute_vorticity None,
        WriteToFile write_real_body_states None,
        WriteToFile write_total_viscous_force_on_inserted_body (Some (number_of_iterations s)),
        WriteToFile write_total_force_on_inserted_body (Some (number_of_iterations s)),
        UpdateConfiguration fluid_observer_contact,
        WriteToFile write_fluid_velocity (Some (number_of_iterations s))]"
  by (simp add: free_stream_output_def Let_def)

lemma free_stream_output_fields:
  "relaxation_time (free_stream_output s) = relaxation_time s"
  "integration_time (free_stream_output s) = integration_time s"
  "physical_time (free_stream_output s) = physical_time s"
  "number_of_iterations (free_stream_output s) = number_of_iterations s"
  by (simp_all add: free_stream_output_def Let_def)

lemma free_stream_prepare_history:
  "history (free_stream_prepare s) =
     history s @
       [InitializeSystemCellLinkedLists, InitializeSystemConfigurations,
        Exec cylinder_normal_direction None, WriteToFile write_real_body_states None]"
  by (simp add: free_stream_prepare_def)

lemma poiseuille_pre_physics_history:
  "history (snd (poiseuille_pre_physics env s)) =
     history s @
       [Exec initialize_a_fluid_step None,
        Exec get_fluid_advection_time_step_size None,
        Exec update_density_by_summation None,
        Exec transport_velocity_correction (Some (fst (poiseuille_pre_physics env s)))]"
  by (simp add: poiseuille_pre_physics_def Let_def)

lemma poiseuille_pre_physics_fields:
  "fst (poiseuille_pre_physics env s) =
     AdvectionTimeStepSize env (history s @ [Exec initialize_a_fluid_step None])"
  "relaxation_time (snd (poiseuille_pre_physics env s)) = 0"
  "integration_time (snd (poiseuille_pre_physics env s)) = integration_time s"
  "physical_time (snd (poiseuille_pre_physics env s)) = physical_time s"
  "number_of_iterations (snd (poiseuille_pre_physics env s)) = number_of_iterations s"
  by (simp_all add: poiseuille_pre_physics_def Let_def)

lemma poiseuille_screen_history:
  "history (poiseuille_screen s) =
     history s @
       (if number_of_iterations s mod screen_output_interval = 0
        then ScreenOutput #
          (if number_of_iterations s mod restart_output_interval = 0
           then [WriteToFile restart_io (Some (number_of_iterations s))] else [])
        else [])"
  by (simp add: poiseuille_screen_def Let_def)

lemma poiseuille_screen_fields:
  "relaxation_time (poiseuille_screen s) = relaxation_time s"
  "integration_time (poiseuille_screen s) = integration_time s"
  "physical_time (poiseuille_screen s) = physical_time s"
  "number_of_iterations (poiseuille_screen s) = number_of_iterations s + 1"
  by (simp_all add: poiseuille_screen_def Let_def)

lemma poiseuille_refresh_history:
  "history (poiseuille_refresh s) =
     history s @
       [Exec periodic_condition_bounding None,
        UpdateCellLinkedList,
        Exec periodic_condition_update_cell_linked_list None,
        UpdateConfiguration water_block_complex]"
  by (simp add: poiseuille_refresh_def Let_def)

lemma poiseuille_refresh_fields:
  "relaxation_time (poiseuille_refresh s) = relaxation_time s"
  "integration_time (poiseuille_refresh s) = integration_time s"
  "physical_time (poiseuille_refresh s) = physical_time s"
  "number_of_iterations (poiseuille_refresh s) = number_of_iterations s"
  by (simp_all add: poiseuille_refresh_def Let_def)


lemma free_stream_advection_step_Some:
  assumes "free_stream_advection_step env s = Some t"
  obtains s2 where
    "free_stream_relaxation_loop env (fst (free_stream_pre_physics env s))
       (snd (free_stream_pre_physics env s)) = Some s2"
    and "t = free_stream_refresh (free_stream_screen s2)"
  using assms by (auto simp: free_stream_advection_step_def split: prod.splits option.splits)

lemma poiseuille_advection_step_Some:
  assumes "poiseuille_advection_step env s = Some t"
  obtains s2 where
    "poiseuille_relaxation_loop env (fst (poiseuille_pre_physics env s))
       (snd (poiseuille_pre_physics env s)) = Some s2"
    and "t = poiseuille_refresh (poiseuille_screen s2)"
  using assms by (auto simp: poiseuille_advection_step_def split: prod.splits option.splits)

text \<open>
  A loop only appends to the history, and what it appends has every property
  of the calls of one iteration that holds of the empty list and of the
  concatenation of two lists that have it.
\<close>

lemma while_loop_appends:
  assumes "while_loop b c s = Some t"
    and step: "\<And>u u1. b u \<Longrightarrow> c u = Some u1 \<Longrightarrow> \<exists>e. history u1 = history u @ e \<and> Q e"
    and nil: "Q []"
    and app: "\<And>a e. Q a \<Longrightarrow> Q e \<Longrightarrow> Q (a @ e)"
  shows "\<exists>e. history t = history s @ e \<and> Q e"
proof -
  let ?I = "\<lambda>u. \<exists>e. history u = history s @ e \<and> Q e"
  have "?I t \<and> \<not> b t"
  proof (rule while_loop_invariant[OF assms(1), of ?I])
    show "?I s" using nil by simp
  next
    fix u u1
    assume "?I u" and "b u" and "c u = Some u1"
    then obtain a e where "history u = history s @ a" "Q a" "history u1 = history u @ e" "Q e"
      using step by blast
    then have "history u1 = history s @ (a @ e) \<and> Q (a @ e)" using app by simp
    then show "?I u1" by blast
  qed
  then show ?thesis by simp
qed

lemma calls_of_append [simp]: "calls_of d (h @ e) = calls_of d h + calls_of d e"
  by (simp add: calls_of_def)

lemma calls_of_Nil [simp]: "calls_of d [] = 0"
  by (simp add: calls_of_def)

lemma calls_of_Cons [simp]: "calls_of d (c # h) = (if is_exec d c then 1 else 0) + calls_of d h"
  by (simp add: calls_of_def)

text \<open>Unfolding everything evaluates the drivers on a given state and given bounds.\<close>

lemmas free_stream_defs =
  free_stream_main_def free_stream_main_loop_def free_stream_output_pass_def
  free_stream_integration_loop_def free_stream_advection_step_def free_stream_relaxation_loop_def
  free_stream_pre_physics_def free_stream_acoustic_step_def free_stream_screen_def
  free_stream_refresh_def free_stream_output_def free_stream_prepare_def
  exec_Dynamics1Level_def free_stream_post_processes_def SMIN_def
  free_stream_end_time_def free_stream_output_interval_def screen_output_interval_def
  run_def initial_def steady_def Let_def while_loop_continue while_loop_exit

lemmas poiseuille_defs =
  poiseuille_main_def poiseuille_main_loop_def poiseuille_output_pass_def
  poiseuille_integration_loop_def poiseuille_advection_step_def poiseuille_relaxation_loop_def
  poiseuille_pre_physics_def poiseuille_acoustic_step_def poiseuille_screen_def
  poiseuille_refresh_def poiseuille_prepare_def SMIN_def
  poiseuille_end_time_def Output_Time_def screen_output_interval_def restart_output_interval_def
  run_def initial_def steady_def Let_def while_loop_continue while_loop_exit

subsection \<open>What a macro step appends to the history\<close>

lemma free_stream_relaxation_loop_appends:
  assumes "free_stream_relaxation_loop env Dt s = Some t"
    and "D \<inter> {get_fluid_time_step_size, pressure_relaxation,
           velocity_boundary_condition_constraint, density_relaxation,
           emitter_buffer_inflow_condition} = {}"
  shows "\<exists>e. history t = history s @ e \<and> (\<forall>d\<in>D. calls_of d e = 0)"
proof (rule while_loop_appends[OF assms(1)[unfolded free_stream_relaxation_loop_def]])
  fix u u1
  assume "Some (free_stream_acoustic_step env Dt u) = Some u1"
  then have "u1 = free_stream_acoustic_step env Dt u" by simp
  with assms(2) show "\<exists>e. history u1 = history u @ e \<and> (\<forall>d\<in>D. calls_of d e = 0)"
    by (auto simp: free_stream_acoustic_step_history)
qed simp_all

lemma poiseuille_relaxation_loop_appends:
  assumes "poiseuille_relaxation_loop env Dt s = Some t"
    and "D \<inter> {get_fluid_time_step_size, pressure_relaxation, viscous_acceleration,
           density_relaxation} = {}"
  shows "\<exists>e. history t = history s @ e \<and> (\<forall>d\<in>D. calls_of d e = 0)"
proof (rule while_loop_appends[OF assms(1)[unfolded poiseuille_relaxation_loop_def]])
  fix u u1
  assume "Some (poiseuille_acoustic_step env Dt u) = Some u1"
  then have "u1 = poiseuille_acoustic_step env Dt u" by simp
  with assms(2) show "\<exists>e. history u1 = history u @ e \<and> (\<forall>d\<in>D. calls_of d e = 0)"
    by (auto simp: poiseuille_acoustic_step_history)
qed simp_all

lemma free_stream_advection_step_appends:
  assumes "free_stream_advection_step env s = Some t"
    and "D \<inter> {get_fluid_time_step_size, pressure_relaxation,
           velocity_boundary_condition_constraint, density_relaxation,
           emitter_buffer_inflow_condition} = {}"
    and "D \<inter> {emitter_inflow_injection, disposer_outflow_deletion} = {}"
  shows "\<exists>rest. history t =
           history s @
             [Exec initialize_a_fluid_step None,
              Exec get_fluid_advection_time_step_size None,
              Exec free_stream_surface_indicator None,
              Exec update_fluid_density None,
              Exec viscous_acceleration None,
              Exec transport_velocity_correction None] @ rest \<and>
           (\<forall>d\<in>D. calls_of d rest = 0)"
proof -
  from assms(1) obtain s2 where
    l: "free_stream_relaxation_loop env (fst (free_stream_pre_physics env s))
          (snd (free_stream_pre_physics env s)) = Some s2"
    and t: "t = free_stream_refresh (free_stream_screen s2)"
    by (rule free_stream_advection_step_Some)
  from free_stream_relaxation_loop_appends[OF l assms(2)] obtain e where
    e: "history s2 = history (snd (free_stream_pre_physics env s)) @ e"
    and d: "\<forall>d\<in>D. calls_of d e = 0" by blast
  let ?rest = "e @
     (if number_of_iterations s2 mod screen_output_interval = 0 then [ScreenOutput] else []) @
     [Exec emitter_inflow_injection None, Exec disposer_outflow_deletion None,
      UpdateCellLinkedListWithParticleSort 100, UpdateConfiguration water_block_complex,
      UpdateConfiguration cylinder_contact]"
  have "history t =
      history s @
        [Exec initialize_a_fluid_step None,
         Exec get_fluid_advection_time_step_size None,
         Exec free_stream_surface_indicator None,
         Exec update_fluid_density None,
         Exec viscous_acceleration None,
         Exec transport_velocity_correction None] @ ?rest"
    by (simp add: t e free_stream_refresh_history free_stream_screen_history
        free_stream_pre_physics_history)
  moreover have "\<forall>d\<in>D. calls_of d ?rest = 0"
    using d assms(3) by auto
  ultimately show ?thesis by blast
qed

lemma poiseuille_advection_step_appends:
  assumes "poiseuille_advection_step env s = Some t"
    and "D \<inter> {get_fluid_time_step_size, pressure_relaxation, viscous_acceleration,
           density_relaxation} = {}"
    and "D \<inter> {periodic_condition_bounding, periodic_condition_update_cell_linked_list} = {}"
  shows "\<exists>rest. history t =
           history s @
             [Exec initialize_a_fluid_step None,
              Exec get_fluid_advection_time_step_size None,
              Exec update_density_by_summation None,
              Exec transport_velocity_correction
                (Some (AdvectionTimeStepSize env (history s @ [Exec initialize_a_fluid_step None])))]
             @ rest \<and>
           (\<forall>d\<in>D. calls_of d rest = 0)"
proof -
  from assms(1) obtain s2 where
    l: "poiseuille_relaxation_loop env (fst (poiseuille_pre_physics env s))
          (snd (poiseuille_pre_physics env s)) = Some s2"
    and t: "t = poiseuille_refresh (poiseuille_screen s2)"
    by (rule poiseuille_advection_step_Some)
  from poiseuille_relaxation_loop_appends[OF l assms(2)] obtain e where
    e: "history s2 = history (snd (poiseuille_pre_physics env s)) @ e"
    and d: "\<forall>d\<in>D. calls_of d e = 0" by blast
  let ?rest = "e @
     (if number_of_iterations s2 mod screen_output_interval = 0
      then ScreenOutput #
        (if number_of_iterations s2 mod restart_output_interval = 0
         then [WriteToFile restart_io (Some (number_of_iterations s2))] else [])
      else []) @
     [Exec periodic_condition_bounding None, UpdateCellLinkedList,
      Exec periodic_condition_update_cell_linked_list None,
      UpdateConfiguration water_block_complex]"
  have "history t =
      history s @
        [Exec initialize_a_fluid_step None,
         Exec get_fluid_advection_time_step_size None,
         Exec update_density_by_summation None,
         Exec transport_velocity_correction
           (Some (AdvectionTimeStepSize env (history s @ [Exec initialize_a_fluid_step None])))]
        @ ?rest"
    by (simp add: t e poiseuille_refresh_history poiseuille_screen_history
        poiseuille_pre_physics_history poiseuille_pre_physics_fields)
  moreover have "\<forall>d\<in>D. calls_of d ?rest = 0"
    using d assms(3) by auto
  ultimately show ?thesis by blast
qed

section \<open>The size of a sub-step\<close>

lemma elapsed_append [simp]: "elapsed (h @ e) = elapsed h + elapsed e"
  by (simp add: elapsed_def)

lemma elapsed_Nil [simp]: "elapsed [] = 0"
  by (simp add: elapsed_def)

lemma elapsed_Cons [simp]: "elapsed (c # h) = substep c + elapsed h"
  by (simp add: elapsed_def)

text \<open>
  In the free stream driver (line 189) the sub-step is clipped by the time
  that remains, so the accumulated time never exceeds \<open>Dt\<close>, and when the
  sub-loop exits the accumulated time, which is the sum of the sub-step
  sizes, is \<open>Dt\<close>.
\<close>

lemma free_stream_dt_remaining: "free_stream_dt env Dt s \<le> Dt - relaxation_time s"
  by (simp add: free_stream_dt_def SMIN_def)

lemma free_stream_acoustic_step_no_overshoot:
  "relaxation_time s \<le> Dt \<Longrightarrow> relaxation_time (free_stream_acoustic_step env Dt s) \<le> Dt"
  using free_stream_dt_remaining[of env Dt s] by (simp add: free_stream_acoustic_step_fields)

lemma free_stream_sub_loop_exact:
  assumes "free_stream_relaxation_loop env Dt s = Some t" and "relaxation_time s \<le> Dt"
  shows "relaxation_time t = Dt"
    and "elapsed (history t) - elapsed (history s) = Dt - relaxation_time s"
proof -
  let ?I = "\<lambda>u. relaxation_time u \<le> Dt \<and>
    elapsed (history u) - elapsed (history s) = relaxation_time u - relaxation_time s"
  have "?I t \<and> \<not> relaxation_time t < Dt"
  proof (rule while_loop_invariant[OF assms(1)[unfolded free_stream_relaxation_loop_def], of ?I])
    show "?I s" using assms(2) by simp
  next
    fix u u1
    assume "?I u" and "Some (free_stream_acoustic_step env Dt u) = Some u1"
    then show "?I u1"
      using free_stream_dt_remaining[of env Dt u]
      by (auto simp: free_stream_acoustic_step_fields free_stream_acoustic_step_history)
  qed
  then show "relaxation_time t = Dt"
    and "elapsed (history t) - elapsed (history s) = Dt - relaxation_time s"
    by simp_all
qed

text \<open>
  Claim C1 fails on the Poiseuille driver.  Line 199 clips the sub-step by
  \<open>Dt\<close>, not by the time that remains.  With \<open>Dt = 1\<close> and the acoustic bound
  \<open>3/5\<close> its sub-loop makes two sub-steps of \<open>3/5\<close> and exits with the accumulated
  time \<open>6/5 > Dt\<close>; the sub-loop of the free stream driver makes the sub-steps
  \<open>3/5\<close> and \<open>2/5\<close> and exits at \<open>Dt\<close>.
\<close>

theorem poiseuille_sub_loop_overshoots:
  "poiseuille_relaxation_loop (steady 1 (3 / 5)) 1 initial =
     Some (initial
       \<lparr>physical_time := 6 / 5, integration_time := 6 / 5, relaxation_time := 6 / 5,
        last_dt := 3 / 5,
        history :=
          [Exec get_fluid_time_step_size None,
           Exec pressure_relaxation (Some (3 / 5)),
           Exec viscous_acceleration (Some (3 / 5)),
           Exec density_relaxation (Some (3 / 5)),
           Exec get_fluid_time_step_size None,
           Exec pressure_relaxation (Some (3 / 5)),
           Exec viscous_acceleration (Some (3 / 5)),
           Exec density_relaxation (Some (3 / 5))]\<rparr>) \<and>
   free_stream_relaxation_loop (steady 1 (3 / 5)) 1 initial =
     Some (initial
       \<lparr>physical_time := 1, integration_time := 1, relaxation_time := 1,
        inner_ite_dt := 2,
        history :=
          [Exec get_fluid_time_step_size None,
           Exec pressure_relaxation (Some (3 / 5)),
           Exec velocity_boundary_condition_constraint (Some (3 / 5)),
           Exec density_relaxation (Some (3 / 5)),
           Exec emitter_buffer_inflow_condition None,
           Exec get_fluid_time_step_size None,
           Exec pressure_relaxation (Some (2 / 5)),
           Exec velocity_boundary_condition_constraint (Some (2 / 5)),
           Exec density_relaxation (Some (2 / 5)),
           Exec emitter_buffer_inflow_condition None]\<rparr>)"
  by (simp add: poiseuille_defs free_stream_defs)

section \<open>Bounds that are not positive\<close>

lemma free_stream_dt_nonpositive:
  assumes "AcousticTimeStepSize env (history s) \<le> 0" and "relaxation_time s < Dt"
  shows "free_stream_dt env Dt s = AcousticTimeStepSize env (history s)"
  using assms by (simp add: free_stream_dt_def SMIN_def)

lemma poiseuille_dt_nonpositive:
  assumes "AcousticTimeStepSize env (history s) \<le> 0"
  shows "poiseuille_dt env Dt s \<le> 0"
  using assms by (simp add: poiseuille_dt_def SMIN_def min_le_iff_disj)

lemma free_stream_relaxation_loop_stuck:
  assumes "\<forall>h. AcousticTimeStepSize env h \<le> 0" and "relaxation_time s < Dt"
  shows "free_stream_relaxation_loop env Dt s = None"
  unfolding free_stream_relaxation_loop_def
proof (rule while_loop_diverges[where I = "\<lambda>u. relaxation_time u < Dt"])
  fix u u1
  assume u: "relaxation_time u < Dt" and "Some (free_stream_acoustic_step env Dt u) = Some u1"
  then have "u1 = free_stream_acoustic_step env Dt u" by simp
  moreover have "free_stream_dt env Dt u \<le> 0"
    using free_stream_dt_nonpositive[OF _ u, of env] assms(1) by simp
  ultimately show "relaxation_time u1 < Dt"
    using u by (simp add: free_stream_acoustic_step_fields)
qed (simp_all add: assms(2))

lemma poiseuille_relaxation_loop_stuck:
  assumes "\<forall>h. AcousticTimeStepSize env h \<le> 0" and "relaxation_time s < Dt"
  shows "poiseuille_relaxation_loop env Dt s = None"
  unfolding poiseuille_relaxation_loop_def
proof (rule while_loop_diverges[where I = "\<lambda>u. relaxation_time u < Dt"])
  fix u u1
  assume u: "relaxation_time u < Dt" and "Some (poiseuille_acoustic_step env Dt u) = Some u1"
  then have "u1 = poiseuille_acoustic_step env Dt u" by simp
  moreover have "poiseuille_dt env Dt u \<le> 0"
    using poiseuille_dt_nonpositive[of env u Dt] assms(1) by simp
  ultimately show "relaxation_time u1 < Dt"
    using u by (simp add: poiseuille_acoustic_step_fields)
qed (simp_all add: assms(2))

lemma free_stream_advection_step_skips:
  assumes "AdvectionTimeStepSize env (history s @ [Exec initialize_a_fluid_step None]) \<le> 0"
  shows "free_stream_advection_step env s =
    Some (free_stream_refresh (free_stream_screen (snd (free_stream_pre_physics env s))))"
proof -
  have "\<not> relaxation_time (snd (free_stream_pre_physics env s)) <
      fst (free_stream_pre_physics env s)"
    using assms by (simp add: free_stream_pre_physics_fields)
  then have "free_stream_relaxation_loop env (fst (free_stream_pre_physics env s))
      (snd (free_stream_pre_physics env s)) = Some (snd (free_stream_pre_physics env s))"
    by (rule free_stream_relaxation_loop_exit)
  then show ?thesis
    by (simp add: free_stream_advection_step_def case_prod_beta)
qed

lemma poiseuille_advection_step_skips:
  assumes "AdvectionTimeStepSize env (history s @ [Exec initialize_a_fluid_step None]) \<le> 0"
  shows "poiseuille_advection_step env s =
    Some (poiseuille_refresh (poiseuille_screen (snd (poiseuille_pre_physics env s))))"
proof -
  have "\<not> relaxation_time (snd (poiseuille_pre_physics env s)) <
      fst (poiseuille_pre_physics env s)"
    using assms by (simp add: poiseuille_pre_physics_fields)
  then have "poiseuille_relaxation_loop env (fst (poiseuille_pre_physics env s))
      (snd (poiseuille_pre_physics env s)) = Some (snd (poiseuille_pre_physics env s))"
    by (rule poiseuille_relaxation_loop_exit)
  then show ?thesis
    by (simp add: poiseuille_advection_step_def case_prod_beta)
qed

text \<open>
  Claim C2, as stated, fails.  The acoustic reduction returns \<open>-1\<close>; the
  free stream driver passes it on as the step size of the pressure and of the
  density relaxation, and its sub-loop never exits.
\<close>

theorem nonpositive_bound_is_not_fatal:
  "AcousticTimeStepSize (steady 1 (- 1)) (history initial) \<le> 0 \<and>
   history (free_stream_acoustic_step (steady 1 (- 1)) 1 initial) =
     [Exec get_fluid_time_step_size None,
      Exec pressure_relaxation (Some (- 1)),
      Exec velocity_boundary_condition_constraint (Some (- 1)),
      Exec density_relaxation (Some (- 1)),
      Exec emitter_buffer_inflow_condition None] \<and>
   free_stream_relaxation_loop (steady 1 (- 1)) 1 initial = None"
proof -
  have "free_stream_relaxation_loop (steady 1 (- 1)) 1 initial = None"
    by (rule free_stream_relaxation_loop_stuck) (simp_all add: steady_def initial_def)
  then show ?thesis
    by (simp add: free_stream_acoustic_step_history free_stream_dt_def SMIN_def steady_def
        initial_def)
qed

text \<open>
  Claim C2, as amended.  The drivers do not test the bounds.  A sub-step whose
  acoustic bound is not positive passes a step size \<open>dt \<le> 0\<close> to the pressure
  and to the density relaxation (in the free stream driver the bound itself),
  and the accumulated time stays below \<open>Dt\<close>; if no acoustic bound is positive
  the sub-loop never exits.  An advection bound \<open>Dt \<le> 0\<close> only skips the
  sub-loop: the macro step goes on with the screen output and the
  configuration refresh.  No call is left out and no error is raised.
\<close>

theorem nonpositive_bounds_are_not_checked:
  "(AcousticTimeStepSize env (history s) \<le> 0 \<and> relaxation_time s < Dt \<longrightarrow>
      free_stream_dt env Dt s = AcousticTimeStepSize env (history s) \<and>
      history (free_stream_acoustic_step env Dt s) =
        history s @
          [Exec get_fluid_time_step_size None,
           Exec pressure_relaxation (Some (AcousticTimeStepSize env (history s))),
           Exec velocity_boundary_condition_constraint (Some (AcousticTimeStepSize env (history s))),
           Exec density_relaxation (Some (AcousticTimeStepSize env (history s))),
           Exec emitter_buffer_inflow_condition None] \<and>
      relaxation_time (free_stream_acoustic_step env Dt s) < Dt \<and>
      poiseuille_dt env Dt s \<le> 0 \<and>
      history (poiseuille_acoustic_step env Dt s) =
        history s @
          [Exec get_fluid_time_step_size None,
           Exec pressure_relaxation (Some (poiseuille_dt env Dt s)),
           Exec viscous_acceleration (Some (poiseuille_dt env Dt s)),
           Exec density_relaxation (Some (poiseuille_dt env Dt s))] \<and>
      relaxation_time (poiseuille_acoustic_step env Dt s) < Dt) \<and>
   ((\<forall>h. AcousticTimeStepSize env h \<le> 0) \<and> relaxation_time s < Dt \<longrightarrow>
      free_stream_relaxation_loop env Dt s = None \<and>
      poiseuille_relaxation_loop env Dt s = None) \<and>
   (AdvectionTimeStepSize env (history s @ [Exec initialize_a_fluid_step None]) \<le> 0 \<longrightarrow>
      free_stream_advection_step env s =
        Some (free_stream_refresh (free_stream_screen (snd (free_stream_pre_physics env s)))) \<and>
      poiseuille_advection_step env s =
        Some (poiseuille_refresh (poiseuille_screen (snd (poiseuille_pre_physics env s)))))"
proof (intro conjI impI)
  assume a: "AcousticTimeStepSize env (history s) \<le> 0 \<and> relaxation_time s < Dt"
  then have f: "free_stream_dt env Dt s = AcousticTimeStepSize env (history s)"
    by (simp add: free_stream_dt_nonpositive)
  from a have p: "poiseuille_dt env Dt s \<le> 0"
    by (simp add: poiseuille_dt_nonpositive)
  show "free_stream_dt env Dt s = AcousticTimeStepSize env (history s)" by (rule f)
  show "history (free_stream_acoustic_step env Dt s) =
        history s @
          [Exec get_fluid_time_step_size None,
           Exec pressure_relaxation (Some (AcousticTimeStepSize env (history s))),
           Exec velocity_boundary_condition_constraint (Some (AcousticTimeStepSize env (history s))),
           Exec density_relaxation (Some (AcousticTimeStepSize env (history s))),
           Exec emitter_buffer_inflow_condition None]"
    by (simp add: free_stream_acoustic_step_history f)
  show "relaxation_time (free_stream_acoustic_step env Dt s) < Dt"
    using a by (simp add: free_stream_acoustic_step_fields f)
  show "poiseuille_dt env Dt s \<le> 0" by (rule p)
  show "history (poiseuille_acoustic_step env Dt s) =
        history s @
          [Exec get_fluid_time_step_size None,
           Exec pressure_relaxation (Some (poiseuille_dt env Dt s)),
           Exec viscous_acceleration (Some (poiseuille_dt env Dt s)),
           Exec density_relaxation (Some (poiseuille_dt env Dt s))]"
    by (rule poiseuille_acoustic_step_history)
  show "relaxation_time (poiseuille_acoustic_step env Dt s) < Dt"
    using a p by (simp add: poiseuille_acoustic_step_fields)
next
  assume "(\<forall>h. AcousticTimeStepSize env h \<le> 0) \<and> relaxation_time s < Dt"
  then show "free_stream_relaxation_loop env Dt s = None"
    and "poiseuille_relaxation_loop env Dt s = None"
    by (simp_all add: free_stream_relaxation_loop_stuck poiseuille_relaxation_loop_stuck)
next
  assume "AdvectionTimeStepSize env (history s @ [Exec initialize_a_fluid_step None]) \<le> 0"
  then show "free_stream_advection_step env s =
        Some (free_stream_refresh (free_stream_screen (snd (free_stream_pre_physics env s))))"
    and "poiseuille_advection_step env s =
        Some (poiseuille_refresh (poiseuille_screen (snd (poiseuille_pre_physics env s))))"
    by (simp_all add: free_stream_advection_step_skips poiseuille_advection_step_skips)
qed

theorem nonpositive_bounds_are_not_checked_witness:
  "free_stream_dt (steady 0 (- 2)) 1 initial = - 2 \<and>
   history (free_stream_acoustic_step (steady 0 (- 2)) 1 initial) =
     [Exec get_fluid_time_step_size None,
      Exec pressure_relaxation (Some (- 2)),
      Exec velocity_boundary_condition_constraint (Some (- 2)),
      Exec density_relaxation (Some (- 2)),
      Exec emitter_buffer_inflow_condition None] \<and>
   relaxation_time (free_stream_acoustic_step (steady 0 (- 2)) 1 initial) < 1 \<and>
   history (poiseuille_acoustic_step (steady 0 (- 2)) 1 initial) =
     [Exec get_fluid_time_step_size None,
      Exec pressure_relaxation (Some (- 2)),
      Exec viscous_acceleration (Some (- 2)),
      Exec density_relaxation (Some (- 2))] \<and>
   relaxation_time (poiseuille_acoustic_step (steady 0 (- 2)) 1 initial) < 1 \<and>
   free_stream_relaxation_loop (steady 0 (- 2)) 1 initial = None \<and>
   poiseuille_relaxation_loop (steady 0 (- 2)) 1 initial = None \<and>
   map_option history (free_stream_advection_step (steady 0 (- 2)) initial) =
     Some [Exec initialize_a_fluid_step None,
           Exec get_fluid_advection_time_step_size None,
           Exec free_stream_surface_indicator None,
           Exec update_fluid_density None,
           Exec viscous_acceleration None,
           Exec transport_velocity_correction None,
           ScreenOutput,
           Exec emitter_inflow_injection None,
           Exec disposer_outflow_deletion None,
           UpdateCellLinkedListWithParticleSort 100,
           UpdateConfiguration water_block_complex,
           UpdateConfiguration cylinder_contact] \<and>
   map_option history (poiseuille_advection_step (steady 0 (- 2)) initial) =
     Some [Exec initialize_a_fluid_step None,
           Exec get_fluid_advection_time_step_size None,
           Exec update_density_by_summation None,
           Exec transport_velocity_correction (Some 0),
           ScreenOutput,
           WriteToFile restart_io (Some 0),
           Exec periodic_condition_bounding None,
           UpdateCellLinkedList,
           Exec periodic_condition_update_cell_linked_list None,
           UpdateConfiguration water_block_complex]"
proof -
  have a: "AcousticTimeStepSize (steady 0 (- 2)) h = - 2"
    and b: "AdvectionTimeStepSize (steady 0 (- 2)) h = 0" for h
    by (simp_all add: steady_def)
  have i: "relaxation_time initial = 0" "history initial = []" "number_of_iterations initial = 0"
    by (simp_all add: initial_def)
  have d: "poiseuille_dt (steady 0 (- 2)) 1 initial = - 2"
    by (simp add: poiseuille_dt_def SMIN_def a)
  from nonpositive_bounds_are_not_checked[of "steady 0 (- 2)" initial 1]
  show ?thesis
    by (simp add: a b i d free_stream_refresh_history free_stream_screen_history
        free_stream_pre_physics_history poiseuille_refresh_history poiseuille_screen_history
        poiseuille_pre_physics_history poiseuille_pre_physics_fields
        free_stream_pre_physics_fields screen_output_interval_def restart_output_interval_def)
qed

section \<open>Neighbour relations are derived again before they are read\<close>

lemma configuration_append:
  "configuration r (h @ e) = foldl (track r) (configuration r h) e"
  by (simp add: configuration_def)

lemma track_Violated: "foldl (track r) Violated e = Violated"
  by (induction e) (simp_all add: track_def)

text \<open>Freshness through the pieces of the free stream driver.\<close>

lemma settled_pre_physics:
  "settled r (configuration r (history s)) \<Longrightarrow>
   settled r (configuration r (history (snd (free_stream_pre_physics env s))))"
  by (cases r) (auto simp: free_stream_pre_physics_history configuration_append settled_def track_def)

lemma usable_acoustic_step:
  "usable r (configuration r (history s)) \<Longrightarrow>
   usable r (configuration r (history (free_stream_acoustic_step env Dt s)))"
  by (cases r) (auto simp: free_stream_acoustic_step_history configuration_append usable_def track_def)

lemma settled_refresh:
  "usable r (configuration r (history s)) \<Longrightarrow>
   settled r (configuration r (history (free_stream_refresh (free_stream_screen s))))"
  by (cases r) (auto simp: free_stream_refresh_history free_stream_screen_history
      configuration_append usable_def settled_def track_def)

lemma settled_output:
  "settled r (configuration r (history s)) \<Longrightarrow>
   configuration r (history (free_stream_output s)) = Fresh"
  by (cases r) (auto simp: free_stream_output_history configuration_append settled_def track_def)

lemma fresh_prepare:
  "configuration r (history (free_stream_prepare initial)) = Fresh"
  by (cases r) (simp_all add: free_stream_prepare_history configuration_def initial_def track_def)


lemma settled_usable: "settled r q \<Longrightarrow> usable r q"
  by (auto simp: settled_def usable_def)

lemma settled_not_Violated: "settled r q \<Longrightarrow> q \<noteq> Violated"
  by (auto simp: settled_def)

lemma usable_relaxation_loop:
  assumes "free_stream_relaxation_loop env Dt s = Some t"
    and "usable r (configuration r (history s))"
  shows "usable r (configuration r (history t))"
proof -
  have "usable r (configuration r (history t)) \<and> \<not> relaxation_time t < Dt"
    using assms(1)[unfolded free_stream_relaxation_loop_def] assms(2)
    by (rule while_loop_invariant) (auto intro: usable_acoustic_step)
  then show ?thesis by simp
qed

lemma settled_advection_step:
  assumes "free_stream_advection_step env s = Some t"
    and "settled r (configuration r (history s))"
  shows "settled r (configuration r (history t))"
proof -
  from assms(1) obtain s2 where
    l: "free_stream_relaxation_loop env (fst (free_stream_pre_physics env s))
          (snd (free_stream_pre_physics env s)) = Some s2"
    and t: "t = free_stream_refresh (free_stream_screen s2)"
    by (rule free_stream_advection_step_Some)
  from assms(2) have "usable r (configuration r (history (snd (free_stream_pre_physics env s))))"
    by (intro settled_usable settled_pre_physics)
  from usable_relaxation_loop[OF l this] show ?thesis
    unfolding t by (rule settled_refresh)
qed

lemma settled_integration_loop:
  assumes "free_stream_integration_loop env s = Some t"
    and "settled r (configuration r (history s))"
  shows "settled r (configuration r (history t))"
proof -
  have "settled r (configuration r (history t)) \<and> \<not> integration_time t < free_stream_output_interval"
    using assms(1)[unfolded free_stream_integration_loop_def] assms(2)
    by (rule while_loop_invariant) (auto intro: settled_advection_step)
  then show ?thesis by simp
qed

lemma settled_output_pass:
  assumes "free_stream_output_pass env s = Some t"
    and "settled r (configuration r (history s))"
  shows "settled r (configuration r (history t))"
proof -
  from assms(1) obtain s1 where
    l: "free_stream_integration_loop env (s\<lparr>integration_time := 0\<rparr>) = Some s1"
    and t: "t = free_stream_output s1"
    by (auto simp: free_stream_output_pass_def split: option.splits)
  from assms(2) have "settled r (configuration r (history (s\<lparr>integration_time := 0\<rparr>)))" by simp
  from settled_integration_loop[OF l this] have "configuration r (history t) = Fresh"
    unfolding t by (rule settled_output)
  then show ?thesis by (simp add: settled_def)
qed

lemma settled_main_loop:
  assumes "free_stream_main_loop env s = Some t"
    and "settled r (configuration r (history s))"
  shows "settled r (configuration r (history t))"
proof -
  have "settled r (configuration r (history t)) \<and> \<not> physical_time t < free_stream_end_time"
    using assms(1)[unfolded free_stream_main_loop_def] assms(2)
    by (rule while_loop_invariant) (auto intro: settled_output_pass)
  then show ?thesis by simp
qed

lemma configuration_prefix:
  assumes "configuration r h \<noteq> Violated"
  shows "configuration r (take n h) \<noteq> Violated"
proof
  assume v: "configuration r (take n h) = Violated"
  have "configuration r h = foldl (track r) (configuration r (take n h)) (drop n h)"
    by (simp add: configuration_append[symmetric])
  with v assms show False by (simp add: track_Violated)
qed

lemma derived_after_refresh:
  "usable r (configuration r (history s)) \<Longrightarrow>
   configuration r (history (free_stream_refresh (free_stream_screen s))) =
     (if r = fluid_observer_contact then Pending else Fresh)"
  by (cases r) (auto simp: free_stream_refresh_history free_stream_screen_history
      configuration_append usable_def track_def)

lemma derived_after_advection_step:
  assumes "free_stream_advection_step env s = Some t"
    and "settled r (configuration r (history s))"
  shows "configuration r (history t) = (if r = fluid_observer_contact then Pending else Fresh)"
proof -
  from assms(1) obtain s2 where
    l: "free_stream_relaxation_loop env (fst (free_stream_pre_physics env s))
          (snd (free_stream_pre_physics env s)) = Some s2"
    and t: "t = free_stream_refresh (free_stream_screen s2)"
    by (rule free_stream_advection_step_Some)
  from assms(2) have "usable r (configuration r (history (snd (free_stream_pre_physics env s))))"
    by (intro settled_usable settled_pre_physics)
  from usable_relaxation_loop[OF l this] show ?thesis
    unfolding t by (rule derived_after_refresh)
qed

text \<open>
  Claim C3.  In a run of the free stream driver, from the preparation to the
  end of the main loop, no call reads a neighbour relation that is pending:
  after the injection, the deletion and the rebuild of the cell linked list of
  a macro step, each relation is derived again by \<^verbatim>\<open>updateConfiguration()\<close>
  before the next call that reads it.  The state \<open>Violated\<close> is reached at no
  point of the history.  At the end of a macro step the relations of the
  fluid and of the cylinder are fresh (lines 215 and 218); the relation of the
  observer is pending until line 227 derives it, and only line 228 reads it.
\<close>

theorem relations_derived_before_use:
  "(free_stream_main env = Some t \<longrightarrow>
      (\<forall>r n. configuration r (take n (history t)) \<noteq> Violated)) \<and>
   (free_stream_advection_step env s = Some t' \<and> settled r (configuration r (history s)) \<longrightarrow>
      configuration r (history t') = (if r = fluid_observer_contact then Pending else Fresh) \<and>
      (\<forall>n. configuration r (take n (history t')) \<noteq> Violated)) \<and>
   (settled r (configuration r (history s)) \<longrightarrow>
      configuration r (history (free_stream_output s)) = Fresh)"
proof (intro conjI impI allI)
  fix r n
  assume run: "free_stream_main env = Some t"
  have "settled r (configuration r (history (free_stream_prepare initial)))"
    by (simp add: fresh_prepare settled_def)
  with run have "settled r (configuration r (history t))"
    unfolding free_stream_main_def by (rule settled_main_loop)
  then show "configuration r (take n (history t)) \<noteq> Violated"
    by (intro configuration_prefix settled_not_Violated)
next
  assume a: "free_stream_advection_step env s = Some t' \<and> settled r (configuration r (history s))"
  then have a1: "free_stream_advection_step env s = Some t'"
    and a2: "settled r (configuration r (history s))" by simp_all
  from a1 a2
  show "configuration r (history t') = (if r = fluid_observer_contact then Pending else Fresh)"
    by (rule derived_after_advection_step)
  fix n
  from a1 a2 have "settled r (configuration r (history t'))"
    by (rule settled_advection_step)
  then show "configuration r (take n (history t')) \<noteq> Violated"
    by (intro configuration_prefix settled_not_Violated)
next
  assume "settled r (configuration r (history s))"
  then show "configuration r (history (free_stream_output s)) = Fresh"
    by (rule settled_output)
qed

theorem relations_derived_before_use_witness:
  "free_stream_main (steady 200 200) = Some free_stream_single_step \<and>
   (\<forall>r n. configuration r (take n (history free_stream_single_step)) \<noteq> Violated) \<and>
   (\<exists>t'. free_stream_advection_step (steady 1 (1 / 2)) (free_stream_prepare initial) = Some t' \<and>
      configuration water_block_inner (history t') = Fresh \<and>
      configuration cylinder_contact (history t') = Fresh \<and>
      configuration fluid_observer_contact (history t') = Pending \<and>
      configuration fluid_observer_contact (history (free_stream_output t')) = Fresh)"
proof -
  have run: "free_stream_main (steady 200 200) = Some free_stream_single_step"
    by (simp add: free_stream_defs free_stream_single_step_def)
  obtain t' where
    step: "free_stream_advection_step (steady 1 (1 / 2)) (free_stream_prepare initial) = Some t'"
    by (simp add: free_stream_defs)
  have start: "settled r (configuration r (history (free_stream_prepare initial)))" for r
    by (simp add: fresh_prepare settled_def)
  note main = relations_derived_before_use
    [of "steady 200 200" free_stream_single_step, THEN conjunct1, rule_format, OF run]
  note macro = relations_derived_before_use
    [of "steady 1 (1 / 2)" _ "free_stream_prepare initial" t',
      THEN conjunct2, THEN conjunct1, rule_format, OF conjI, OF step start, THEN conjunct1]
  have observer: "settled fluid_observer_contact
      (configuration fluid_observer_contact (history t'))"
    using macro[of fluid_observer_contact] by (simp add: settled_def)
  note after_output = relations_derived_before_use
    [of _ _ t' _ fluid_observer_contact,
      THEN conjunct2, THEN conjunct2, rule_format, OF observer]
  from run main step macro[of water_block_inner] macro[of cylinder_contact]
    macro[of fluid_observer_contact] after_output
  show ?thesis by auto
qed

section \<open>Termination of the acoustic sub-loop\<close>

subsection \<open>The rounded loop bodies\<close>

lemma rounded_free_stream_acoustic_step_exact:
  "rounded_free_stream_acoustic_step (\<lambda>x. x) env Dt s = free_stream_acoustic_step env Dt s"
  by (simp add: rounded_free_stream_acoustic_step_def free_stream_acoustic_step_def)

lemma rounded_poiseuille_acoustic_step_exact:
  "rounded_poiseuille_acoustic_step (\<lambda>x. x) env Dt s = poiseuille_acoustic_step env Dt s"
  by (simp add: rounded_poiseuille_acoustic_step_def poiseuille_acoustic_step_def)



subsection \<open>Rounding to a double\<close>







subsection \<open>Progress by a fixed amount\<close>




subsection \<open>Bounds one half: two sub-steps in doubles\<close>





subsection \<open>Positive bounds that stall the sub-loop\<close>






section \<open>The two phases of a sub-step\<close>

text \<open>
  Claim C5.  An object with post-process hooks appends its own call and then
  the calls of its hooks, all with the same step size.  A sub-step of the
  free stream driver is therefore: the acoustic reduction, the pressure
  relaxation, its hook \<^verbatim>\<open>velocity_boundary_condition_constraint\<close>, the density
  relaxation, the inflow condition; the two relaxations get the same \<open>dt\<close>.
  In the Poiseuille driver the pressure relaxation also comes before the
  density relaxation, with the same \<open>dt\<close>.  A call is one event of the
  history, so two calls never interleave.
\<close>

theorem two_phase_order:
  "history (exec_Dynamics1Level d hooks dt s) =
     history s @ Exec d (Some dt) # map (\<lambda>p. Exec p (Some dt)) hooks \<and>
   history (free_stream_acoustic_step env Dt s) =
     history s @
       [Exec get_fluid_time_step_size None,
        Exec pressure_relaxation (Some (free_stream_dt env Dt s)),
        Exec velocity_boundary_condition_constraint (Some (free_stream_dt env Dt s)),
        Exec density_relaxation (Some (free_stream_dt env Dt s)),
        Exec emitter_buffer_inflow_condition None] \<and>
   history (poiseuille_acoustic_step env Dt s) =
     history s @
       [Exec get_fluid_time_step_size None,
        Exec pressure_relaxation (Some (poiseuille_dt env Dt s)),
        Exec viscous_acceleration (Some (poiseuille_dt env Dt s)),
        Exec density_relaxation (Some (poiseuille_dt env Dt s))]"
proof -
  have "history (fold (\<lambda>p. run (Exec p (Some dt))) hooks u) =
      history u @ map (\<lambda>p. Exec p (Some dt)) hooks" for u
    by (induction hooks arbitrary: u) simp_all
  then have "history (exec_Dynamics1Level d hooks dt s) =
      history s @ Exec d (Some dt) # map (\<lambda>p. Exec p (Some dt)) hooks"
    by (simp add: exec_Dynamics1Level_def)
  then show ?thesis
    by (simp add: free_stream_acoustic_step_history poiseuille_acoustic_step_history)
qed

section \<open>The calls before the acoustic sub-loop\<close>

text \<open>
  Claim C6, as stated, fails.  Both drivers call \<^verbatim>\<open>initialize_a_fluid_step\<close>
  before the advection reduction (lines 178--179 and 188--189), not after it;
  and the Poiseuille driver calls \<^verbatim>\<open>viscous_acceleration\<close> in the sub-loop, twice
  in a macro step of two sub-steps.
\<close>

theorem reduction_is_not_the_first_call:
  "take 2 (history (snd (free_stream_pre_physics (steady 1 (1 / 2)) initial))) =
     [Exec initialize_a_fluid_step None, Exec get_fluid_advection_time_step_size None] \<and>
   take 2 (history (snd (poiseuille_pre_physics (steady 1 (1 / 2)) initial))) =
     [Exec initialize_a_fluid_step None, Exec get_fluid_advection_time_step_size None] \<and>
   poiseuille_advection_step (steady 1 (1 / 2)) initial = Some poiseuille_two_substeps \<and>
   calls_of viscous_acceleration (history poiseuille_two_substeps) = 2"
proof -
  have "poiseuille_advection_step (steady 1 (1 / 2)) initial = Some poiseuille_two_substeps"
    by (simp add: poiseuille_defs poiseuille_two_substeps_def)
  moreover have "calls_of viscous_acceleration (history poiseuille_two_substeps) = 2"
    by (simp add: poiseuille_two_substeps_def)
  ultimately show ?thesis
    by (simp add: free_stream_pre_physics_history poiseuille_pre_physics_history initial_def)
qed

text \<open>
  Claim C6, as amended.  Every macro step that returns starts with the
  PointwiseUpdate \<^verbatim>\<open>initialize_a_fluid_step\<close>, then the advection reduction that
  gives \<open>Dt\<close>, then the density summation and the transport correction (in the
  free stream driver with the surface indicator before and the viscous
  acceleration between them), and none of these objects is called again in
  the rest of the macro step: each runs exactly once, before the sub-loop.
\<close>

theorem pre_physics_once_before_sub_loop:
  "(free_stream_advection_step env s = Some t \<longrightarrow>
      (\<exists>rest. history t =
         history s @
           [Exec initialize_a_fluid_step None,
            Exec get_fluid_advection_time_step_size None,
            Exec free_stream_surface_indicator None,
            Exec update_fluid_density None,
            Exec viscous_acceleration None,
            Exec transport_velocity_correction None] @ rest \<and>
         (\<forall>d\<in>{initialize_a_fluid_step, get_fluid_advection_time_step_size,
               free_stream_surface_indicator, update_fluid_density, viscous_acceleration,
               transport_velocity_correction}. calls_of d rest = 0))) \<and>
   (poiseuille_advection_step env s = Some t' \<longrightarrow>
      (\<exists>rest. history t' =
         history s @
           [Exec initialize_a_fluid_step None,
            Exec get_fluid_advection_time_step_size None,
            Exec update_density_by_summation None,
            Exec transport_velocity_correction
              (Some (AdvectionTimeStepSize env (history s @ [Exec initialize_a_fluid_step None])))]
           @ rest \<and>
         (\<forall>d\<in>{initialize_a_fluid_step, get_fluid_advection_time_step_size,
               update_density_by_summation, transport_velocity_correction}.
            calls_of d rest = 0)))"
proof (intro conjI impI)
  assume "free_stream_advection_step env s = Some t"
  then show "\<exists>rest. history t =
         history s @
           [Exec initialize_a_fluid_step None,
            Exec get_fluid_advection_time_step_size None,
            Exec free_stream_surface_indicator None,
            Exec update_fluid_density None,
            Exec viscous_acceleration None,
            Exec transport_velocity_correction None] @ rest \<and>
         (\<forall>d\<in>{initialize_a_fluid_step, get_fluid_advection_time_step_size,
               free_stream_surface_indicator, update_fluid_density, viscous_acceleration,
               transport_velocity_correction}. calls_of d rest = 0)"
    by (rule free_stream_advection_step_appends) simp_all
next
  assume "poiseuille_advection_step env s = Some t'"
  then show "\<exists>rest. history t' =
         history s @
           [Exec initialize_a_fluid_step None,
            Exec get_fluid_advection_time_step_size None,
            Exec update_density_by_summation None,
            Exec transport_velocity_correction
              (Some (AdvectionTimeStepSize env (history s @ [Exec initialize_a_fluid_step None])))]
           @ rest \<and>
         (\<forall>d\<in>{initialize_a_fluid_step, get_fluid_advection_time_step_size,
               update_density_by_summation, transport_velocity_correction}.
            calls_of d rest = 0)"
    by (rule poiseuille_advection_step_appends) simp_all
qed

theorem pre_physics_once_before_sub_loop_witness:
  "free_stream_advection_step (steady 1 (1 / 2)) initial = Some free_stream_two_substeps \<and>
   poiseuille_advection_step (steady 1 (1 / 2)) initial = Some poiseuille_two_substeps \<and>
   (\<exists>rest. history free_stream_two_substeps =
      [Exec initialize_a_fluid_step None,
       Exec get_fluid_advection_time_step_size None,
       Exec free_stream_surface_indicator None,
       Exec update_fluid_density None,
       Exec viscous_acceleration None,
       Exec transport_velocity_correction None] @ rest \<and>
      calls_of initialize_a_fluid_step rest = 0 \<and>
      calls_of get_fluid_advection_time_step_size rest = 0 \<and>
      calls_of free_stream_surface_indicator rest = 0 \<and>
      calls_of update_fluid_density rest = 0 \<and>
      calls_of viscous_acceleration rest = 0 \<and>
      calls_of transport_velocity_correction rest = 0) \<and>
   (\<exists>rest. history poiseuille_two_substeps =
      [Exec initialize_a_fluid_step None,
       Exec get_fluid_advection_time_step_size None,
       Exec update_density_by_summation None,
       Exec transport_velocity_correction (Some 1)] @ rest \<and>
      calls_of initialize_a_fluid_step rest = 0 \<and>
      calls_of get_fluid_advection_time_step_size rest = 0 \<and>
      calls_of update_density_by_summation rest = 0 \<and>
      calls_of transport_velocity_correction rest = 0)"
proof -
  have f: "free_stream_advection_step (steady 1 (1 / 2)) initial = Some free_stream_two_substeps"
    by (simp add: free_stream_defs free_stream_two_substeps_def)
  have p: "poiseuille_advection_step (steady 1 (1 / 2)) initial = Some poiseuille_two_substeps"
    by (simp add: poiseuille_defs poiseuille_two_substeps_def)
  have i: "history initial = []" by (simp add: initial_def)
  have a: "AdvectionTimeStepSize (steady 1 (1 / 2)) h = 1" for h by (simp add: steady_def)
  from pre_physics_once_before_sub_loop
    [of "steady 1 (1 / 2)" initial free_stream_two_substeps poiseuille_two_substeps]
    f p show ?thesis
    by (simp add: i a)
qed

section \<open>The rate of the viscous acceleration\<close>

lemma poiseuille_relaxation_loop_viscous:
  assumes "poiseuille_relaxation_loop env Dt s = Some t"
  shows "calls_of viscous_acceleration (history t) + calls_of get_fluid_time_step_size (history s) =
         calls_of viscous_acceleration (history s) + calls_of get_fluid_time_step_size (history t)"
proof -
  let ?I = "\<lambda>u. calls_of viscous_acceleration (history u) +
                 calls_of get_fluid_time_step_size (history s) =
               calls_of viscous_acceleration (history s) +
                 calls_of get_fluid_time_step_size (history u)"
  have "?I t \<and> \<not> relaxation_time t < Dt"
    by (rule while_loop_invariant[OF assms[unfolded poiseuille_relaxation_loop_def], of ?I])
      (auto simp: poiseuille_acoustic_step_history)
  then show ?thesis by simp
qed

text \<open>
  Claim C7.  In the free stream driver a macro step calls
  \<^verbatim>\<open>viscous_acceleration\<close> exactly once, among the calls before the sub-loop, and a
  sub-step never calls it.  In the Poiseuille driver the calls before the
  sub-loop do not contain it (line 191 is a comment), every sub-step calls it
  once, and so a macro step calls it as often as it calls the acoustic
  reduction.
\<close>

theorem viscous_acceleration_rate:
  "(free_stream_advection_step env s = Some t \<longrightarrow>
      calls_of viscous_acceleration (history t) =
        calls_of viscous_acceleration (history s) + 1) \<and>
   calls_of viscous_acceleration (history (snd (free_stream_pre_physics env s))) =
     calls_of viscous_acceleration (history s) + 1 \<and>
   calls_of viscous_acceleration (history (free_stream_acoustic_step env Dt u)) =
     calls_of viscous_acceleration (history u) \<and>
   (poiseuille_advection_step env s = Some t' \<longrightarrow>
      calls_of viscous_acceleration (history t') + calls_of get_fluid_time_step_size (history s) =
        calls_of viscous_acceleration (history s) + calls_of get_fluid_time_step_size (history t')) \<and>
   calls_of viscous_acceleration (history (snd (poiseuille_pre_physics env s))) =
     calls_of viscous_acceleration (history s) \<and>
   calls_of viscous_acceleration (history (poiseuille_acoustic_step env Dt u)) =
     calls_of viscous_acceleration (history u) + 1 \<and>
   calls_of get_fluid_time_step_size (history (poiseuille_acoustic_step env Dt u)) =
     calls_of get_fluid_time_step_size (history u) + 1"
proof (intro conjI impI)
  assume "free_stream_advection_step env s = Some t"
  from free_stream_advection_step_appends[OF this, of "{viscous_acceleration}"]
  show "calls_of viscous_acceleration (history t) = calls_of viscous_acceleration (history s) + 1"
    by auto
next
  assume "poiseuille_advection_step env s = Some t'"
  then obtain s2 where
    l: "poiseuille_relaxation_loop env (fst (poiseuille_pre_physics env s))
          (snd (poiseuille_pre_physics env s)) = Some s2"
    and t: "t' = poiseuille_refresh (poiseuille_screen s2)"
    by (rule poiseuille_advection_step_Some)
  from poiseuille_relaxation_loop_viscous[OF l]
  show "calls_of viscous_acceleration (history t') + calls_of get_fluid_time_step_size (history s) =
        calls_of viscous_acceleration (history s) + calls_of get_fluid_time_step_size (history t')"
    by (simp add: t poiseuille_refresh_history poiseuille_screen_history
        poiseuille_pre_physics_history)
qed (simp_all add: free_stream_pre_physics_history free_stream_acoustic_step_history
    poiseuille_pre_physics_history poiseuille_acoustic_step_history)

theorem viscous_acceleration_rate_witness:
  "free_stream_advection_step (steady 1 (1 / 2)) initial = Some free_stream_two_substeps \<and>
   poiseuille_advection_step (steady 1 (1 / 2)) initial = Some poiseuille_two_substeps \<and>
   calls_of viscous_acceleration (history free_stream_two_substeps) = 1 \<and>
   calls_of get_fluid_time_step_size (history free_stream_two_substeps) = 2 \<and>
   calls_of viscous_acceleration (history poiseuille_two_substeps) = 2 \<and>
   calls_of get_fluid_time_step_size (history poiseuille_two_substeps) = 2"
proof -
  have f: "free_stream_advection_step (steady 1 (1 / 2)) initial = Some free_stream_two_substeps"
    by (simp add: free_stream_defs free_stream_two_substeps_def)
  have p: "poiseuille_advection_step (steady 1 (1 / 2)) initial = Some poiseuille_two_substeps"
    by (simp add: poiseuille_defs poiseuille_two_substeps_def)
  have g: "calls_of get_fluid_time_step_size (history free_stream_two_substeps) = 2"
    "calls_of get_fluid_time_step_size (history poiseuille_two_substeps) = 2"
    by (simp_all add: free_stream_two_substeps_def poiseuille_two_substeps_def)
  have i: "history initial = []" by (simp add: initial_def)
  from viscous_acceleration_rate
    [of "steady 1 (1 / 2)" initial free_stream_two_substeps 1 initial poiseuille_two_substeps]
    f p g show ?thesis
    by (simp add: i)
qed

section \<open>The calls around each rebuild of the cell linked list (Poiseuille)\<close>











subsection \<open>What a rebuild finds\<close>











end
